theory Spec2Isabelle
  imports Main
begin

section \<open>The environment monitor of the Azure Linux agent\<close>

text \<open>
  A shallow embedding of \<^verbatim>\<open>azurelinuxagent/ga/env.py\<close>: the class \<^verbatim>\<open>EnvHandler\<close>, its
  lifecycle operations (\<^verbatim>\<open>run\<close>, \<^verbatim>\<open>start\<close>, \<^verbatim>\<open>stop\<close>, \<^verbatim>\<open>is_alive\<close>), the body of the loop of
  \<^verbatim>\<open>monitor\<close> and the four reconcilers it calls.

  The handler's mutable fields are a record. What the handler does to its collaborators
  (the OS utilities, the DHCP handler, the archiver, the logger, the telemetry sink, the
  thread library) is recorded, in order, in the field \<open>trace\<close>. What the collaborators
  answer during one operation is the operation's input, a record \<open>world\<close>.
  Collaborator calls return normally, except \<^verbatim>\<open>get_dhcp_pid\<close>, whose failure the source
  handles in a \<^verbatim>\<open>try\<close> block; its answer is a sum, \<open>Inl\<close> the text of the exception.
\<close>

subsection \<open>Data\<close>

type_synonym pid = int

text \<open>A \<^verbatim>\<open>datetime\<close> and a \<^verbatim>\<open>timedelta\<close>, both counted in microseconds.\<close>

type_synonym datetime = int
type_synonym timedelta = int

datatype event =
    LogInfo string
  | LogWarn string
  | LogError string
  | ConfRoutes
  | RemoveRulesFiles
  | RemoveFirewall string nat
  | EnableFirewall string nat
  | AddPeriodic bool
  | SetScsiDisksTimeout nat
  | SetHostname string
  | PublishHostname string
  | Purge
  | Archive
  | Sleep nat
  | ThreadStart string
  | ThreadJoin string

record thread =
  thread_name :: string
  thread_daemon :: bool

datatype exn = AttributeError string

text \<open>
  The fields of \<^verbatim>\<open>EnvHandler\<close> that hold state. The handles \<^verbatim>\<open>osutil\<close>, \<^verbatim>\<open>dhcp_handler\<close>,
  \<^verbatim>\<open>archiver\<close> and \<^verbatim>\<open>protocol_util\<close> only name collaborators; calls through them are
  events of the trace.
\<close>

record env_handler =
  stopped :: bool
  hostname :: "string option"
  dhcp_id_list :: "pid list"
  server_thread :: "thread option"
  dhcp_warning_enabled :: bool
  last_archive :: "datetime option"
  has_reset_firewall_rules :: bool
  trace :: "event list"

text \<open>
  The answers of the collaborators during one operation (one call of \<^verbatim>\<open>run\<close>, or one
  iteration of the loop of \<^verbatim>\<open>monitor\<close>). An operation that asks the same question twice
  (\<^verbatim>\<open>conf.enable_firewall\<close> and \<^verbatim>\<open>os.getuid\<close> in \<^verbatim>\<open>run\<close> and in \<^verbatim>\<open>set_firewall_rules\<close>) gets the
  same answer; \<^verbatim>\<open>get_dhcp_pid\<close> is asked at most once in an operation. The field
  \<open>osutil_get_dhcp_pid\<close> is \<open>Inr\<close> the pids returned, or \<open>Inl\<close> the text of the exception
  raised. \<open>METADATA_SERVER_ENDPOINT\<close> is a constant of another module and is taken as a
  parameter here.
\<close>

record world =
  conf_enable_firewall :: bool
  conf_get_root_device_scsi_timeout :: "nat option"
  conf_get_monitor_hostname :: bool
  is_migrating_protocol :: bool
  METADATA_SERVER_ENDPOINT :: string
  os_getuid :: nat
  get_endpoint :: string
  osutil_enable_firewall :: bool
  osutil_get_hostname_record :: string
  socket_gethostname :: string
  osutil_get_dhcp_pid :: "string + pid list"
  osutil_check_pid_alive :: "pid \<Rightarrow> bool"
  utcnow :: datetime

definition ARCHIVE_INTERVAL :: timedelta where
  "ARCHIVE_INTERVAL = 24 * 3600 * 1000000"

definition emit :: "event \<Rightarrow> env_handler \<Rightarrow> env_handler" where
  "emit e s = s\<lparr>trace := trace s @ [e]\<rparr>"

subsection \<open>Construction and lifecycle\<close>

text \<open>\<^verbatim>\<open>EnvHandler.__init__\<close>\<close>

definition init :: env_handler where
  "init = \<lparr>stopped = True, hostname = None, dhcp_id_list = [], server_thread = None,
     dhcp_warning_enabled = True, last_archive = None, has_reset_firewall_rules = False,
     trace = []\<rparr>"

text \<open>\<^verbatim>\<open>is_alive\<close>: on \<^verbatim>\<open>None\<close> the attribute access raises; on a thread the answer is the
  thread library's, the parameter \<open>alive\<close>.\<close>

definition is_alive :: "(thread \<Rightarrow> bool) \<Rightarrow> env_handler \<Rightarrow> exn + bool" where
  "is_alive alive s =
     (case server_thread s of
        None \<Rightarrow> Inl (AttributeError ''is_alive'')
      | Some t \<Rightarrow> Inr (alive t))"

definition start :: "env_handler \<Rightarrow> env_handler" where
  "start s =
     (let t = \<lparr>thread_name = ''EnvHandler'', thread_daemon = True\<rparr>;
          s1 = s\<lparr>server_thread := Some t\<rparr>
      in emit (ThreadStart (thread_name t)) s1)"

definition stop :: "env_handler \<Rightarrow> env_handler" where
  "stop s =
     (let s1 = s\<lparr>stopped := True\<rparr>
      in case server_thread s1 of
           None \<Rightarrow> s1
         | Some t \<Rightarrow> emit (ThreadJoin (thread_name t)) s1)"

subsection \<open>The reconcilers\<close>

definition set_firewall_rules :: "world \<Rightarrow> string \<Rightarrow> env_handler \<Rightarrow> env_handler" where
  "set_firewall_rules w endpoint s =
     (let s1 = emit RemoveRulesFiles s
      in if conf_enable_firewall w then
           (let s2 = (if \<not> has_reset_firewall_rules s1
                      then (emit (RemoveFirewall endpoint (os_getuid w)) s1)
                             \<lparr>has_reset_firewall_rules := True\<rparr>
                      else s1);
                s3 = emit (EnableFirewall endpoint (os_getuid w)) s2
            in emit (AddPeriodic (osutil_enable_firewall w)) s3)
         else s1)"

definition str_opt :: "string option \<Rightarrow> string" where
  "str_opt h = (case h of None \<Rightarrow> ''None'' | Some x \<Rightarrow> x)"

definition handle_hostname_update :: "world \<Rightarrow> env_handler \<Rightarrow> env_handler" where
  "handle_hostname_update w s =
     (let curr_hostname = socket_gethostname w
      in if Some curr_hostname \<noteq> hostname s then
           (let s1 = emit (LogInfo (''EnvMonitor: Detected hostname change: ''
                         @ str_opt (hostname s) @ '' -> '' @ curr_hostname)) s;
                s2 = emit (SetHostname curr_hostname) s1;
                s3 = emit (PublishHostname curr_hostname) s2
            in s3\<lparr>hostname := Some curr_hostname\<rparr>)
         else s)"

definition get_dhcp_client_pid :: "world \<Rightarrow> env_handler \<Rightarrow> pid list \<times> env_handler" where
  "get_dhcp_client_pid w s =
     (let (pid, s1) =
        (case osutil_get_dhcp_pid w of
           Inr ps \<Rightarrow>
             (let pid = sort ps
              in (pid, if length pid = 0 \<and> dhcp_warning_enabled s
                       then emit (LogWarn ''Dhcp client is not running.'') s
                       else s))
         | Inl exception \<Rightarrow>
             ([], if dhcp_warning_enabled s
                  then emit (LogError (''Failed to get the PID of the DHCP client: ''
                               @ exception)) s
                  else s))
      in (pid, s1\<lparr>dhcp_warning_enabled := (length pid \<noteq> 0)\<rparr>))"

definition handle_dhclient_restart :: "world \<Rightarrow> env_handler \<Rightarrow> env_handler" where
  "handle_dhclient_restart w s =
     (if length (dhcp_id_list s) = 0 then
        (let (pid, s1) = get_dhcp_client_pid w s
         in s1\<lparr>dhcp_id_list := pid\<rparr>)
      else if list_all (osutil_check_pid_alive w) (dhcp_id_list s) then s
      else
        (let (new_pid, s1) = get_dhcp_client_pid w s
         in if length new_pid \<noteq> 0 \<and> new_pid \<noteq> dhcp_id_list s1 then
              (let s2 = emit (LogInfo
                          ''EnvMonitor: Detected dhcp client restart. Restoring routing table.'') s1;
                   s3 = emit ConfRoutes s2
               in s3\<lparr>dhcp_id_list := new_pid\<rparr>)
            else s1))"

definition archive_history :: "world \<Rightarrow> env_handler \<Rightarrow> env_handler" where
  "archive_history w s =
     (if (case last_archive s of
            None \<Rightarrow> False
          | Some t \<Rightarrow> utcnow w < t + ARCHIVE_INTERVAL)
      then s
      else (let s1 = emit Purge s in emit Archive s1))"

subsection \<open>The loop and the bootstrap\<close>

text \<open>One iteration of the loop of \<^verbatim>\<open>monitor\<close>, entered when the guard holds.\<close>

definition monitor_body :: "world \<Rightarrow> env_handler \<Rightarrow> env_handler" where
  "monitor_body w s =
     (let s1 = set_firewall_rules w (get_endpoint w) s;
          s2 = (case conf_get_root_device_scsi_timeout w of
                  None \<Rightarrow> s1
                | Some timeout \<Rightarrow> emit (SetScsiDisksTimeout timeout) s1);
          s3 = (if conf_get_monitor_hostname w then handle_hostname_update w s2 else s2);
          s4 = handle_dhclient_restart w s3;
          s5 = archive_history w s4
      in emit (Sleep 5) s5)"

text \<open>
  \<^verbatim>\<open>monitor\<close> on a finite prefix of what the collaborators answer, one \<open>world\<close> for each
  iteration: the loop itself ends only when \<^verbatim>\<open>stopped\<close> is set. When the prefix is used up
  the state reached so far is returned.
\<close>

fun monitor :: "world list \<Rightarrow> env_handler \<Rightarrow> env_handler" where
  "monitor [] s = s"
| "monitor (w # ws) s = (if \<not> stopped s then monitor ws (monitor_body w s) else s)"

definition run :: "world \<Rightarrow> env_handler \<Rightarrow> env_handler" where
  "run w s =
     (let s0 = (if \<not> stopped s
                then stop (emit (LogInfo ''Stop existing env monitor service.'') s)
                else s);
          s1 = s0\<lparr>stopped := False\<rparr>;
          s2 = emit (LogInfo ''Start env monitor service.'') s1;
          s3 = emit ConfRoutes s2;
          s4 = s3\<lparr>hostname := Some (osutil_get_hostname_record w)\<rparr>;
          (pid, s5) = get_dhcp_client_pid w s4;
          s6 = s5\<lparr>dhcp_id_list := pid\<rparr>;
          s7 = (if conf_enable_firewall w \<and> is_migrating_protocol w
                then emit (RemoveFirewall (METADATA_SERVER_ENDPOINT w) (os_getuid w)) s6
                else s6);
          s8 = set_firewall_rules w (get_endpoint w) s7
      in start s8)"

text \<open>
  A history of one handler: calls of \<^verbatim>\<open>run\<close>, \<^verbatim>\<open>stop\<close> and \<^verbatim>\<open>start\<close> by the owner, and
  iterations of the loop by the background task. An iteration happens only while the
  loop's guard holds.
\<close>

datatype operation = Run world | Stop | Start | Tick world

fun exec_op :: "operation \<Rightarrow> env_handler \<Rightarrow> env_handler" where
  "exec_op (Run w) s = run w s"
| "exec_op Stop s = stop s"
| "exec_op Start s = start s"
| "exec_op (Tick w) s = (if \<not> stopped s then monitor_body w s else s)"

fun exec :: "operation list \<Rightarrow> env_handler \<Rightarrow> env_handler" where
  "exec [] s = s"
| "exec (x # xs) s = exec xs (exec_op x s)"

subsection \<open>Observations used in the statements\<close>

text \<open>The calls of \<^verbatim>\<open>osutil.remove_firewall\<close> recorded so far, in order.\<close>

fun is_remove_firewall :: "event \<Rightarrow> bool" where
  "is_remove_firewall (RemoveFirewall dst uid) = True"
| "is_remove_firewall _ = False"

definition remove_firewall_calls :: "env_handler \<Rightarrow> event list" where
  "remove_firewall_calls s = filter is_remove_firewall (trace s)"

text \<open>A sequence of calls of \<^verbatim>\<open>get_dhcp_client_pid\<close>, one \<open>world\<close> for each call.\<close>

fun fetches :: "world list \<Rightarrow> env_handler \<Rightarrow> env_handler" where
  "fetches [] s = s"
| "fetches (w # ws) s = fetches ws (snd (get_dhcp_client_pid w s))"

text \<open>\<^verbatim>\<open>osutil.get_dhcp_pid\<close> returns, and what it returns is not empty.\<close>

definition returns_pids :: "world \<Rightarrow> bool" where
  "returns_pids w = (case osutil_get_dhcp_pid w of Inl e \<Rightarrow> False | Inr ps \<Rightarrow> ps \<noteq> [])"

text \<open>The operations that create the background task.\<close>

fun creates_task :: "operation \<Rightarrow> bool" where
  "creates_task (Run w) = True"
| "creates_task Start = True"
| "creates_task _ = False"

subsection \<open>Concrete inputs\<close>

text \<open>
  A machine with the firewall enabled, no protocol migration, the hostname changed from
  \<^verbatim>\<open>host-a\<close> to \<^verbatim>\<open>host-b\<close>, the DHCP client running as pids 309 and 205, and pid 101 dead.
\<close>

definition world0 :: world where
  "world0 = \<lparr>conf_enable_firewall = True, conf_get_root_device_scsi_timeout = Some 300,
     conf_get_monitor_hostname = True, is_migrating_protocol = False,
     METADATA_SERVER_ENDPOINT = ''169.254.169.254'', os_getuid = 0,
     get_endpoint = ''168.63.129.16'', osutil_enable_firewall = True,
     osutil_get_hostname_record = ''host-a'', socket_gethostname = ''host-b'',
     osutil_get_dhcp_pid = Inr [309, 205], osutil_check_pid_alive = (\<lambda>p. p \<noteq> 101),
     utcnow = 0\<rparr>"

text \<open>A handler whose first \<^verbatim>\<open>run\<close> has been stopped after one iteration of the loop.\<close>

definition stopped_handler :: env_handler where
  "stopped_handler = exec [Run world0, Tick world0, Stop] init"

text \<open>A handler after its first \<^verbatim>\<open>run\<close>, which found the DHCP client as pids 205 and 101.\<close>

definition running_handler :: env_handler where
  "running_handler = run (world0\<lparr>osutil_get_dhcp_pid := Inr [205, 101]\<rparr>) init"

section \<open>Facts about the operations\<close>

subsection \<open>What each operation leaves alone\<close>

lemma emit_fields [simp]:
  "stopped (emit e s) = stopped s"
  "hostname (emit e s) = hostname s"
  "dhcp_id_list (emit e s) = dhcp_id_list s"
  "server_thread (emit e s) = server_thread s"
  "dhcp_warning_enabled (emit e s) = dhcp_warning_enabled s"
  "last_archive (emit e s) = last_archive s"
  "has_reset_firewall_rules (emit e s) = has_reset_firewall_rules s"
  "trace (emit e s) = trace s @ [e]"
  by (simp_all add: emit_def)

lemma sort_Nil_iff [simp]: "(sort xs = []) = (xs = [])"
  by (metis length_sort length_0_conv)

lemma get_dhcp_client_pid_fst:
  "fst (get_dhcp_client_pid w s) =
     (case osutil_get_dhcp_pid w of Inl e \<Rightarrow> [] | Inr ps \<Rightarrow> sort ps)"
  by (simp add: get_dhcp_client_pid_def Let_def split: sum.splits)

lemma get_dhcp_client_pid_snd:
  "snd (get_dhcp_client_pid w s) =
     s\<lparr>dhcp_warning_enabled :=
         (case osutil_get_dhcp_pid w of Inl e \<Rightarrow> False | Inr ps \<Rightarrow> ps \<noteq> []),
       trace := trace s @
         (case osutil_get_dhcp_pid w of
            Inl e \<Rightarrow> if dhcp_warning_enabled s
                     then [LogError (''Failed to get the PID of the DHCP client: '' @ e)]
                     else []
          | Inr ps \<Rightarrow> if ps = [] \<and> dhcp_warning_enabled s
                     then [LogWarn ''Dhcp client is not running.''] else [])\<rparr>"
  by (simp add: get_dhcp_client_pid_def emit_def Let_def split: sum.splits)

lemma set_firewall_rules_frame [simp]:
  "stopped (set_firewall_rules w ep s) = stopped s"
  "server_thread (set_firewall_rules w ep s) = server_thread s"
  "last_archive (set_firewall_rules w ep s) = last_archive s"
  by (simp_all add: set_firewall_rules_def Let_def)

lemma handle_hostname_update_frame [simp]:
  "stopped (handle_hostname_update w s) = stopped s"
  "server_thread (handle_hostname_update w s) = server_thread s"
  "last_archive (handle_hostname_update w s) = last_archive s"
  "has_reset_firewall_rules (handle_hostname_update w s) = has_reset_firewall_rules s"
  by (simp_all add: handle_hostname_update_def Let_def)

lemma get_dhcp_client_pid_frame [simp]:
  "stopped (snd (get_dhcp_client_pid w s)) = stopped s"
  "server_thread (snd (get_dhcp_client_pid w s)) = server_thread s"
  "last_archive (snd (get_dhcp_client_pid w s)) = last_archive s"
  "has_reset_firewall_rules (snd (get_dhcp_client_pid w s)) = has_reset_firewall_rules s"
  "dhcp_id_list (snd (get_dhcp_client_pid w s)) = dhcp_id_list s"
  by (simp_all add: get_dhcp_client_pid_snd)

lemma handle_dhclient_restart_frame [simp]:
  "stopped (handle_dhclient_restart w s) = stopped s"
  "server_thread (handle_dhclient_restart w s) = server_thread s"
  "last_archive (handle_dhclient_restart w s) = last_archive s"
  "has_reset_firewall_rules (handle_dhclient_restart w s) = has_reset_firewall_rules s"
  by (simp_all add: handle_dhclient_restart_def Let_def split_beta)

lemma archive_history_frame [simp]:
  "stopped (archive_history w s) = stopped s"
  "server_thread (archive_history w s) = server_thread s"
  "last_archive (archive_history w s) = last_archive s"
  "has_reset_firewall_rules (archive_history w s) = has_reset_firewall_rules s"
  by (simp_all add: archive_history_def Let_def)

lemma monitor_body_frame [simp]:
  "stopped (monitor_body w s) = stopped s"
  "server_thread (monitor_body w s) = server_thread s"
  "last_archive (monitor_body w s) = last_archive s"
  by (simp_all add: monitor_body_def Let_def split: option.splits)

lemma start_frame [simp]:
  "stopped (start s) = stopped s"
  "last_archive (start s) = last_archive s"
  "has_reset_firewall_rules (start s) = has_reset_firewall_rules s"
  by (simp_all add: start_def Let_def)

lemma stop_frame [simp]:
  "server_thread (stop s) = server_thread s"
  "last_archive (stop s) = last_archive s"
  "has_reset_firewall_rules (stop s) = has_reset_firewall_rules s"
  by (simp_all add: stop_def Let_def split: option.splits)

lemma run_frame [simp]:
  "last_archive (run w s) = last_archive s"
  "\<not> stopped (run w s)"
  by (simp_all add: run_def Let_def split_beta)

lemma run_server_thread:
  "server_thread (run w s) = Some \<lparr>thread_name = ''EnvHandler'', thread_daemon = True\<rparr>"
  by (simp add: run_def start_def Let_def split_beta)

lemma run_dhcp_id_list:
  "dhcp_id_list (run w s) =
     (case osutil_get_dhcp_pid w of Inl e \<Rightarrow> [] | Inr ps \<Rightarrow> sort ps)"
  by (simp add: run_def start_def set_firewall_rules_def Let_def split_beta
      get_dhcp_client_pid_fst)

lemma exec_op_last_archive [simp]: "last_archive (exec_op x s) = last_archive s"
  by (cases x) simp_all

lemma monitor_exec: "monitor ws s = exec (map Tick ws) s"
proof (induction ws arbitrary: s)
  case Nil
  show ?case by simp
next
  case (Cons w ws)
  have "stopped s \<Longrightarrow> exec (map Tick ws) s = s"
    by (induction ws) simp_all
  with Cons show ?case by simp
qed

lemma exec_last_archive: "last_archive (exec xs s) = last_archive s"
  by (induction xs arbitrary: s) simp_all

lemma monitor_last_archive: "last_archive (monitor ws s) = last_archive s"
  by (induction ws arbitrary: s) simp_all

lemma exec_server_thread:
  "list_all (\<lambda>x. \<not> creates_task x) xs \<Longrightarrow> server_thread (exec xs s) = server_thread s"
proof (induction xs arbitrary: s)
  case Nil
  show ?case by simp
next
  case (Cons x xs)
  then show ?case by (cases x) simp_all
qed

subsection \<open>The one-time reset flag and the calls of remove_firewall\<close>

lemma remove_firewall_calls_emit [simp]:
  "remove_firewall_calls (emit e s) =
     remove_firewall_calls s @ (if is_remove_firewall e then [e] else [])"
  by (simp add: remove_firewall_calls_def)

lemma remove_firewall_calls_update [simp]:
  "remove_firewall_calls (s\<lparr>stopped := a\<rparr>) = remove_firewall_calls s"
  "remove_firewall_calls (s\<lparr>hostname := b\<rparr>) = remove_firewall_calls s"
  "remove_firewall_calls (s\<lparr>dhcp_id_list := c\<rparr>) = remove_firewall_calls s"
  "remove_firewall_calls (s\<lparr>server_thread := d\<rparr>) = remove_firewall_calls s"
  "remove_firewall_calls (s\<lparr>dhcp_warning_enabled := f\<rparr>) = remove_firewall_calls s"
  "remove_firewall_calls (s\<lparr>has_reset_firewall_rules := g\<rparr>) = remove_firewall_calls s"
  by (simp_all add: remove_firewall_calls_def)

lemma set_firewall_rules_flag:
  "has_reset_firewall_rules (set_firewall_rules w ep s) =
     (conf_enable_firewall w \<or> has_reset_firewall_rules s)"
  by (simp add: set_firewall_rules_def Let_def)

lemma set_firewall_rules_calls:
  "remove_firewall_calls (set_firewall_rules w ep s) =
     remove_firewall_calls s @
       (if conf_enable_firewall w \<and> \<not> has_reset_firewall_rules s
        then [RemoveFirewall ep (os_getuid w)] else [])"
  by (simp add: set_firewall_rules_def Let_def)

lemma handle_hostname_update_calls [simp]:
  "remove_firewall_calls (handle_hostname_update w s) = remove_firewall_calls s"
  by (simp add: handle_hostname_update_def Let_def)

lemma get_dhcp_client_pid_calls [simp]:
  "remove_firewall_calls (snd (get_dhcp_client_pid w s)) = remove_firewall_calls s"
  by (simp add: get_dhcp_client_pid_def Let_def split: sum.splits)

lemma handle_dhclient_restart_calls [simp]:
  "remove_firewall_calls (handle_dhclient_restart w s) = remove_firewall_calls s"
  by (simp add: handle_dhclient_restart_def Let_def split_beta)

lemma archive_history_calls [simp]:
  "remove_firewall_calls (archive_history w s) = remove_firewall_calls s"
  by (simp add: archive_history_def Let_def)

lemma monitor_body_flag:
  "has_reset_firewall_rules (monitor_body w s) =
     (conf_enable_firewall w \<or> has_reset_firewall_rules s)"
  by (simp add: monitor_body_def Let_def set_firewall_rules_flag split: option.splits)

lemma monitor_body_calls:
  "remove_firewall_calls (monitor_body w s) =
     remove_firewall_calls s @
       (if conf_enable_firewall w \<and> \<not> has_reset_firewall_rules s
        then [RemoveFirewall (get_endpoint w) (os_getuid w)] else [])"
  by (simp add: monitor_body_def Let_def set_firewall_rules_calls split: option.splits)

lemma start_calls [simp]: "remove_firewall_calls (start s) = remove_firewall_calls s"
  by (simp add: start_def Let_def)

lemma stop_calls [simp]: "remove_firewall_calls (stop s) = remove_firewall_calls s"
  by (simp add: stop_def Let_def split: option.splits)

lemma run_flag:
  "has_reset_firewall_rules (run w s) =
     (conf_enable_firewall w \<or> has_reset_firewall_rules s)"
  by (simp add: run_def Let_def split_beta set_firewall_rules_flag)

lemma run_calls:
  "remove_firewall_calls (run w s) =
     remove_firewall_calls s @
       (if conf_enable_firewall w \<and> is_migrating_protocol w
        then [RemoveFirewall (METADATA_SERVER_ENDPOINT w) (os_getuid w)] else []) @
       (if conf_enable_firewall w \<and> \<not> has_reset_firewall_rules s
        then [RemoveFirewall (get_endpoint w) (os_getuid w)] else [])"
  by (simp add: run_def Let_def split_beta set_firewall_rules_calls)

lemma exec_op_flag:
  "has_reset_firewall_rules s \<Longrightarrow> has_reset_firewall_rules (exec_op x s)"
  by (cases x) (simp_all add: run_flag monitor_body_flag)

lemma exec_flag:
  "has_reset_firewall_rules s \<Longrightarrow> has_reset_firewall_rules (exec xs s)"
  by (induction xs arbitrary: s) (simp_all add: exec_op_flag)

lemma monitor_after_reset:
  "list_all conf_enable_firewall ws \<Longrightarrow> has_reset_firewall_rules s \<Longrightarrow>
   remove_firewall_calls (monitor ws s) = remove_firewall_calls s \<and>
   has_reset_firewall_rules (monitor ws s)"
  by (induction ws arbitrary: s) (simp_all add: monitor_body_calls monitor_body_flag)

subsection \<open>The DHCP restart detector\<close>

lemma handle_dhclient_restart_dead:
  assumes "dhcp_id_list s \<noteq> []"
    and "\<not> list_all (osutil_check_pid_alive w) (dhcp_id_list s)"
  shows "handle_dhclient_restart w s =
     (let new_pid = fst (get_dhcp_client_pid w s); s1 = snd (get_dhcp_client_pid w s)
      in if new_pid \<noteq> [] \<and> new_pid \<noteq> dhcp_id_list s
         then s1\<lparr>dhcp_id_list := new_pid,
                trace := trace s1 @
                  [LogInfo ''EnvMonitor: Detected dhcp client restart. Restoring routing table.'',
                   ConfRoutes]\<rparr>
         else s1)"
  using assms
  by (simp add: handle_dhclient_restart_def Let_def split_beta emit_def)

lemma fetches_snoc: "fetches (ws @ [w]) s = snd (get_dhcp_client_pid w (fetches ws s))"
  by (induction ws arbitrary: s) simp_all

lemma flag_after_fetch:
  "dhcp_warning_enabled (snd (get_dhcp_client_pid w s)) = returns_pids w"
  by (simp add: get_dhcp_client_pid_snd returns_pids_def)

lemma flag_after_fetches:
  "dhcp_warning_enabled (fetches ws s) =
     (if ws = [] then dhcp_warning_enabled s else returns_pids (last ws))"
proof (induction ws rule: rev_induct)
  case Nil
  show ?case by simp
next
  case (snoc w ws)
  show ?case by (simp add: fetches_snoc flag_after_fetch)
qed

lemma trace_after_fetch:
  "trace (snd (get_dhcp_client_pid w s)) = trace s @
     (case osutil_get_dhcp_pid w of
        Inr ps \<Rightarrow> if ps = [] \<and> dhcp_warning_enabled s
                 then [LogWarn ''Dhcp client is not running.''] else []
      | Inl e \<Rightarrow> if dhcp_warning_enabled s
                then [LogError (''Failed to get the PID of the DHCP client: '' @ e)]
                else [])"
  by (simp add: get_dhcp_client_pid_snd split: sum.splits)


subsection \<open>Counting calls in the trace\<close>

lemma count_emit [simp]:
  "count_list (trace (emit e s)) x = count_list (trace s) x + (if e = x then 1 else 0)"
  by simp

lemma set_firewall_rules_count:
  "x = Purge \<or> x = Archive \<or> x = ConfRoutes \<Longrightarrow>
   count_list (trace (set_firewall_rules w ep s)) x = count_list (trace s) x"
  by (auto simp add: set_firewall_rules_def Let_def)

lemma handle_hostname_update_count:
  "x = Purge \<or> x = Archive \<or> x = ConfRoutes \<Longrightarrow>
   count_list (trace (handle_hostname_update w s)) x = count_list (trace s) x"
  by (auto simp add: handle_hostname_update_def Let_def)

lemma get_dhcp_client_pid_count:
  "x = Purge \<or> x = Archive \<or> x = ConfRoutes \<Longrightarrow>
   count_list (trace (snd (get_dhcp_client_pid w s))) x = count_list (trace s) x"
  by (auto simp add: trace_after_fetch split: sum.splits)

lemma handle_dhclient_restart_count:
  "x = Purge \<or> x = Archive \<Longrightarrow>
   count_list (trace (handle_dhclient_restart w s)) x = count_list (trace s) x"
  by (auto simp add: handle_dhclient_restart_def Let_def split_beta get_dhcp_client_pid_count)

lemma archive_history_count:
  "count_list (trace (archive_history w s)) ConfRoutes = count_list (trace s) ConfRoutes"
  by (simp add: archive_history_def Let_def)

lemma dhcp_id_list_frame [simp]:
  "dhcp_id_list (set_firewall_rules w ep s) = dhcp_id_list s"
  "dhcp_id_list (handle_hostname_update w s) = dhcp_id_list s"
  "dhcp_id_list (archive_history w s) = dhcp_id_list s"
  by (simp_all add: set_firewall_rules_def handle_hostname_update_def archive_history_def Let_def)

subsection \<open>The concrete handlers\<close>

lemma running_handler_eq:
  "running_handler =
     \<lparr>stopped = False, hostname = Some ''host-a'', dhcp_id_list = [101, 205],
      server_thread = Some \<lparr>thread_name = ''EnvHandler'', thread_daemon = True\<rparr>,
      dhcp_warning_enabled = True, last_archive = None, has_reset_firewall_rules = True,
      trace = [LogInfo ''Start env monitor service.'', ConfRoutes, RemoveRulesFiles,
        RemoveFirewall ''168.63.129.16'' 0, EnableFirewall ''168.63.129.16'' 0,
        AddPeriodic True, ThreadStart ''EnvHandler'']\<rparr>"
  by (simp add: running_handler_def run_def init_def world0_def get_dhcp_client_pid_def
      set_firewall_rules_def start_def emit_def Let_def)

lemma world0_fields:
  "conf_enable_firewall world0"
  "\<not> is_migrating_protocol world0"
  "get_endpoint world0 = ''168.63.129.16''"
  "os_getuid world0 = 0"
  by (simp_all add: world0_def)

lemma init_fields:
  "\<not> has_reset_firewall_rules init"
  "remove_firewall_calls init = []"
  "last_archive init = None"
  "server_thread init = None"
  "dhcp_warning_enabled init"
  by (simp_all add: init_def remove_firewall_calls_def)

lemma stopped_handler_flag: "has_reset_firewall_rules stopped_handler"
  by (simp add: stopped_handler_def run_flag monitor_body_flag world0_fields)

lemma stopped_handler_calls:
  "remove_firewall_calls stopped_handler = [RemoveFirewall ''168.63.129.16'' 0]"
  by (simp add: stopped_handler_def run_calls run_flag monitor_body_calls world0_fields
      init_fields)

section \<open>The claims\<close>

text \<open>
  C1, as amended. In a tick of the DHCP restart detector that finds the stored pid sequence
  non-empty and one of its pids dead, the refetched sequence is stored when it is not
  empty (also when it equals the old one); an empty refetch leaves the stored sequence as
  it was. So the stored sequence stays non-empty, and the next tick checks liveness again
  instead of entering the bootstrap path.
\<close>

theorem dhcp_restart_stores_nonempty_refetch:
  assumes "dhcp_id_list s \<noteq> []"
    and "\<not> list_all (osutil_check_pid_alive w) (dhcp_id_list s)"
  shows "dhcp_id_list (handle_dhclient_restart w s) =
           (if fst (get_dhcp_client_pid w s) = [] then dhcp_id_list s
            else fst (get_dhcp_client_pid w s)) \<and>
         dhcp_id_list (handle_dhclient_restart w s) \<noteq> []"
  using assms by (simp add: handle_dhclient_restart_dead Let_def)

text \<open>
  The stored pids are 101 and 205, pid 101 is dead and the refetch is empty: the stored
  sequence is still 101, 205 afterwards, not the empty refetch. In the next tick, where
  the client is back as pid 7, the detector therefore reports a restart and reconfigures
  the routes, which the bootstrap path never does.
\<close>

theorem dhcp_restart_empty_refetch_not_stored:
  "dhcp_id_list running_handler = [101, 205] \<and>
   \<not> list_all (osutil_check_pid_alive (world0\<lparr>osutil_get_dhcp_pid := Inr []\<rparr>))
       (dhcp_id_list running_handler) \<and>
   fst (get_dhcp_client_pid (world0\<lparr>osutil_get_dhcp_pid := Inr []\<rparr>) running_handler) = [] \<and>
   dhcp_id_list (handle_dhclient_restart (world0\<lparr>osutil_get_dhcp_pid := Inr []\<rparr>)
     running_handler) = [101, 205] \<and>
   trace (handle_dhclient_restart (world0\<lparr>osutil_get_dhcp_pid := Inr [7]\<rparr>)
     (handle_dhclient_restart (world0\<lparr>osutil_get_dhcp_pid := Inr []\<rparr>) running_handler)) =
     trace running_handler @
       [LogWarn ''Dhcp client is not running.'',
        LogInfo ''EnvMonitor: Detected dhcp client restart. Restoring routing table.'',
        ConfRoutes]"
  by (simp add: running_handler_eq handle_dhclient_restart_def get_dhcp_client_pid_def
      world0_def emit_def Let_def)

theorem dhcp_restart_stores_nonempty_refetch_witness:
  "dhcp_id_list running_handler \<noteq> [] \<and>
   \<not> list_all (osutil_check_pid_alive world0) (dhcp_id_list running_handler) \<and>
   dhcp_id_list (handle_dhclient_restart world0 running_handler) = [205, 309] \<and>
   dhcp_id_list (handle_dhclient_restart (world0\<lparr>osutil_get_dhcp_pid := Inl ''pidof''\<rparr>)
     running_handler) = [101, 205]"
proof -
  have a: "dhcp_id_list running_handler \<noteq> []"
    by (simp add: running_handler_eq)
  have b: "\<not> list_all (osutil_check_pid_alive w) (dhcp_id_list running_handler)"
    if "osutil_check_pid_alive w = osutil_check_pid_alive world0" for w :: world
    using that by (simp add: running_handler_eq world0_def)
  show ?thesis
    using a b [of world0]
      dhcp_restart_stores_nonempty_refetch [OF a b, of world0]
      dhcp_restart_stores_nonempty_refetch [OF a b,
        of "world0\<lparr>osutil_get_dhcp_pid := Inl ''pidof''\<rparr>"]
    by (simp add: get_dhcp_client_pid_fst running_handler_eq world0_def)
qed


text \<open>
  C2. One tick of the archive scheduler. When \<^verbatim>\<open>last_archive\<close> is set to a time \<open>T\<close> and the
  current time is earlier than \<open>T\<close> plus 24 hours (86400000000 microseconds), nothing is
  called and the handler is unchanged. Otherwise, that is when 24 hours or more have
  passed or \<^verbatim>\<open>last_archive\<close> is unset, \<^verbatim>\<open>purge\<close> is called and then \<^verbatim>\<open>archive\<close>, and nothing
  else changes.
\<close>

theorem archive_history_gating:
  "archive_history w s =
     (case last_archive s of
        Some T \<Rightarrow> if utcnow w < T + 86400000000 then s
                  else s\<lparr>trace := trace s @ [Purge, Archive]\<rparr>
      | None \<Rightarrow> s\<lparr>trace := trace s @ [Purge, Archive]\<rparr>)"
  by (simp add: archive_history_def ARCHIVE_INTERVAL_def emit_def Let_def split: option.splits)

theorem archive_history_gating_witness:
  "archive_history (world0\<lparr>utcnow := 86399999999\<rparr>) (init\<lparr>last_archive := Some 0\<rparr>) =
     init\<lparr>last_archive := Some 0\<rparr> \<and>
   trace (archive_history (world0\<lparr>utcnow := 86400000000\<rparr>) (init\<lparr>last_archive := Some 0\<rparr>)) =
     [Purge, Archive] \<and>
   trace (archive_history world0 init) = [Purge, Archive]"
  using archive_history_gating [of "world0\<lparr>utcnow := 86399999999\<rparr>" "init\<lparr>last_archive := Some 0\<rparr>"]
    archive_history_gating [of "world0\<lparr>utcnow := 86400000000\<rparr>" "init\<lparr>last_archive := Some 0\<rparr>"]
    archive_history_gating [of world0 init]
  by (simp add: init_def)

text \<open>
  C3. No operation of the loop writes \<^verbatim>\<open>last_archive\<close>: the archive scheduler, one iteration
  of the loop, any number of iterations, and any history of \<^verbatim>\<open>run\<close>, \<^verbatim>\<open>stop\<close>, \<^verbatim>\<open>start\<close> and
  iterations leave it as it was. After construction it is therefore unset for good, also
  after \<^verbatim>\<open>purge\<close> and \<^verbatim>\<open>archive\<close> have been called.
\<close>

theorem last_archive_never_written:
  "last_archive (archive_history w s) = last_archive s \<and>
   last_archive (monitor_body w s) = last_archive s \<and>
   last_archive (monitor ws s) = last_archive s \<and>
   last_archive (exec xs s) = last_archive s \<and>
   last_archive (exec xs init) = None"
  by (simp add: exec_last_archive monitor_last_archive init_fields)

theorem last_archive_never_written_witness:
  "trace (archive_history world0 init) = [Purge, Archive] \<and>
   last_archive (archive_history world0 init) = None \<and>
   last_archive (monitor [world0, world0] running_handler) = None \<and>
   last_archive (exec [Run world0, Tick world0, Stop, Run world0, Tick world0] init) = None"
  using last_archive_never_written [of world0 init "[world0, world0]"
      "[Run world0, Tick world0, Stop, Run world0, Tick world0]"]
    last_archive_never_written [of world0 running_handler "[world0, world0]" "[]"]
  by (simp add: running_handler_eq archive_history_def init_def emit_def)

text \<open>
  C4, as amended. One lifetime is a call of \<^verbatim>\<open>run\<close> followed by any number of iterations
  of the loop, with the firewall enabled in configuration throughout. In it the hard
  reset (\<^verbatim>\<open>remove_firewall\<close> for the endpoint and the current user) is called once when
  \<^verbatim>\<open>has_reset_firewall_rules\<close> is false as \<^verbatim>\<open>run\<close> begins, as in the first \<^verbatim>\<open>run\<close> of a handler,
  and not at all when the flag is already true, as in a \<^verbatim>\<open>run\<close> after \<^verbatim>\<open>stop\<close>. The call is
  made by the first invocation of the reconciler, the one in \<^verbatim>\<open>run\<close>; the flag is true
  from then on, and no iteration of the loop calls \<^verbatim>\<open>remove_firewall\<close>. The only other call
  of \<^verbatim>\<open>remove_firewall\<close> in a lifetime is the cleanup of the legacy endpoint in \<^verbatim>\<open>run\<close> during
  a protocol migration.
\<close>

theorem hard_reset_once_per_handler:
  assumes "conf_enable_firewall w" and "list_all conf_enable_firewall ws"
  shows "remove_firewall_calls (monitor ws (run w s)) =
           remove_firewall_calls s @
             (if is_migrating_protocol w
              then [RemoveFirewall (METADATA_SERVER_ENDPOINT w) (os_getuid w)] else []) @
             (if has_reset_firewall_rules s then []
              else [RemoveFirewall (get_endpoint w) (os_getuid w)]) \<and>
         remove_firewall_calls (monitor ws (run w s)) = remove_firewall_calls (run w s) \<and>
         has_reset_firewall_rules (run w s) \<and>
         has_reset_firewall_rules (monitor ws (run w s))"
  using assms monitor_after_reset [of ws "run w s"]
  by (simp add: run_calls run_flag)

text \<open>
  A handler is run with the firewall enabled, iterates once and is stopped; then it is
  run again and iterates twice, the firewall still enabled. The second lifetime calls
  \<^verbatim>\<open>remove_firewall\<close> zero times: the one call on record is the first lifetime's.
\<close>

theorem second_run_no_hard_reset:
  "conf_enable_firewall world0 \<and>
   list_all conf_enable_firewall [world0, world0] \<and>
   remove_firewall_calls stopped_handler = [RemoveFirewall ''168.63.129.16'' 0] \<and>
   remove_firewall_calls (monitor [world0, world0] (run world0 stopped_handler)) =
     remove_firewall_calls stopped_handler"
  using monitor_after_reset [of "[world0, world0]" "run world0 stopped_handler"]
  by (simp add: stopped_handler_calls stopped_handler_flag run_calls run_flag world0_fields)

theorem hard_reset_once_per_handler_witness:
  "conf_enable_firewall world0 \<and>
   list_all conf_enable_firewall [world0, world0] \<and>
   remove_firewall_calls (monitor [world0, world0] (run world0 init)) =
     [RemoveFirewall ''168.63.129.16'' 0] \<and>
   has_reset_firewall_rules (monitor [world0, world0] (run world0 init))"
proof -
  have a: "conf_enable_firewall world0"
    by (simp add: world0_fields)
  have b: "list_all conf_enable_firewall [world0, world0]"
    by (simp add: world0_fields)
  show ?thesis
    using a b hard_reset_once_per_handler [OF a b, of init]
    by (simp add: world0_fields init_fields)
qed

text \<open>
  C5. The stored pid sequence is 101, 205, pid 101 is dead, and the refetch, sorted, is
  205, 309. Then the tick of the DHCP restart detector calls \<^verbatim>\<open>conf_routes\<close> exactly once
  (after logging the restart, and nothing else), and the stored sequence becomes 205, 309.
\<close>

theorem restart_detection_example:
  assumes "dhcp_id_list s = [101, 205]" and "\<not> osutil_check_pid_alive w 101"
    and "osutil_get_dhcp_pid w = Inr ps" and "sort ps = [205, 309]"
  shows "dhcp_id_list (handle_dhclient_restart w s) = [205, 309] \<and>
         trace (handle_dhclient_restart w s) = trace s @
           [LogInfo ''EnvMonitor: Detected dhcp client restart. Restoring routing table.'',
            ConfRoutes] \<and>
         count_list (trace (handle_dhclient_restart w s)) ConfRoutes =
           count_list (trace s) ConfRoutes + 1"
proof -
  have ne: "ps \<noteq> []"
    using assms(4) by auto
  have "handle_dhclient_restart w s =
     (snd (get_dhcp_client_pid w s))\<lparr>dhcp_id_list := [205, 309],
        trace := trace (snd (get_dhcp_client_pid w s)) @
          [LogInfo ''EnvMonitor: Detected dhcp client restart. Restoring routing table.'',
           ConfRoutes]\<rparr>"
    using assms by (simp add: handle_dhclient_restart_dead get_dhcp_client_pid_fst Let_def)
  then show ?thesis
    using assms(3) ne by (simp add: trace_after_fetch)
qed

theorem restart_detection_example_witness:
  "dhcp_id_list running_handler = [101, 205] \<and>
   \<not> osutil_check_pid_alive world0 101 \<and>
   osutil_get_dhcp_pid world0 = Inr [309, 205] \<and>
   sort [309, 205 :: int] = [205, 309] \<and>
   dhcp_id_list (handle_dhclient_restart world0 running_handler) = [205, 309] \<and>
   count_list (trace (handle_dhclient_restart world0 running_handler)) ConfRoutes = 2"
proof -
  have a: "dhcp_id_list running_handler = [101, 205]"
    by (simp add: running_handler_eq)
  have b: "\<not> osutil_check_pid_alive world0 101"
    by (simp add: world0_def)
  have c: "osutil_get_dhcp_pid world0 = Inr [309, 205]"
    by (simp add: world0_def)
  have d: "sort [309, 205 :: int] = [205, 309]"
    by simp
  show ?thesis
    using a b c d restart_detection_example [OF a b c d]
    by (simp add: running_handler_eq)
qed


text \<open>
  C6. One tick of the hostname change detector with the hostname \<open>a\<close> cached and the live
  query answering \<open>b\<close>. If they differ, \<^verbatim>\<open>set_hostname\<close> and then \<^verbatim>\<open>publish_hostname\<close> are
  called with \<open>b\<close> (after the change is logged) and the cache becomes \<open>b\<close>. If they are
  equal, nothing is called and the handler is unchanged. The spec's example is \<open>a\<close> =
  \<^verbatim>\<open>host-a\<close> with \<open>b\<close> = \<^verbatim>\<open>host-b\<close>, and with \<open>b\<close> = \<^verbatim>\<open>host-a\<close>.
\<close>

theorem hostname_change_detection:
  assumes "hostname s = Some a" and "socket_gethostname w = b"
  shows "if a \<noteq> b
         then handle_hostname_update w s =
                s\<lparr>hostname := Some b,
                  trace := trace s @
                    [LogInfo (''EnvMonitor: Detected hostname change: '' @ a @ '' -> '' @ b),
                     SetHostname b, PublishHostname b]\<rparr>
         else handle_hostname_update w s = s"
  using assms by (auto simp add: handle_hostname_update_def emit_def str_opt_def Let_def)

theorem hostname_change_detection_witness:
  "hostname running_handler = Some ''host-a'' \<and>
   socket_gethostname world0 = ''host-b'' \<and>
   hostname (handle_hostname_update world0 running_handler) = Some ''host-b'' \<and>
   trace (handle_hostname_update world0 running_handler) = trace running_handler @
     [LogInfo ''EnvMonitor: Detected hostname change: host-a -> host-b'',
      SetHostname ''host-b'', PublishHostname ''host-b''] \<and>
   handle_hostname_update (world0\<lparr>socket_gethostname := ''host-a''\<rparr>) running_handler =
     running_handler"
proof -
  have a: "hostname running_handler = Some ''host-a''"
    by (simp add: running_handler_eq)
  have b: "socket_gethostname world0 = ''host-b''"
    by (simp add: world0_def)
  have c: "socket_gethostname (world0\<lparr>socket_gethostname := ''host-a''\<rparr>) = ''host-a''"
    by simp
  show ?thesis
    using a b hostname_change_detection [OF a b] hostname_change_detection [OF a c]
    by simp
qed

text \<open>
  C7. A call of \<^verbatim>\<open>get_dhcp_client_pid\<close> sets the warning flag to whether the fetch returned
  a non-empty sequence, so the flag is true again exactly after such a fetch. A fetch that
  returns the empty sequence logs \<^verbatim>\<open>Dhcp client is not running.\<close> exactly when the flag was
  true, and no other fetch logs it (a fetch that raises logs an error, under the same
  flag). In a sequence of fetches on a new handler the flag before a fetch is true
  exactly when it is the first fetch or the fetch before it returned a non-empty sequence:
  the warning is logged on the transition into the empty state and not while the state
  stays empty.
\<close>

theorem dhcp_warning_only_on_transition:
  "dhcp_warning_enabled (snd (get_dhcp_client_pid w s)) = returns_pids w \<and>
   trace (snd (get_dhcp_client_pid w s)) = trace s @
     (case osutil_get_dhcp_pid w of
        Inr ps \<Rightarrow> if ps = [] \<and> dhcp_warning_enabled s
                 then [LogWarn ''Dhcp client is not running.''] else []
      | Inl e \<Rightarrow> if dhcp_warning_enabled s
                then [LogError (''Failed to get the PID of the DHCP client: '' @ e)]
                else []) \<and>
   dhcp_warning_enabled (fetches ws init) = (ws = [] \<or> returns_pids (last ws)) \<and>
   trace (fetches (ws @ [w]) init) = trace (fetches ws init) @
     (case osutil_get_dhcp_pid w of
        Inr ps \<Rightarrow> if ps = [] \<and> (ws = [] \<or> returns_pids (last ws))
                 then [LogWarn ''Dhcp client is not running.''] else []
      | Inl e \<Rightarrow> if ws = [] \<or> returns_pids (last ws)
                then [LogError (''Failed to get the PID of the DHCP client: '' @ e)]
                else [])"
proof -
  have f: "dhcp_warning_enabled (fetches ws init) = (ws = [] \<or> returns_pids (last ws))"
    by (simp add: flag_after_fetches init_fields)
  show ?thesis
    using f trace_after_fetch [of w s] trace_after_fetch [of w "fetches ws init"]
    by (simp add: fetches_snoc flag_after_fetch split: sum.splits)
qed

theorem dhcp_warning_only_on_transition_witness:
  "trace (fetches [world0\<lparr>osutil_get_dhcp_pid := Inr []\<rparr>] init) =
     [LogWarn ''Dhcp client is not running.''] \<and>
   trace (fetches [world0\<lparr>osutil_get_dhcp_pid := Inr []\<rparr>,
                   world0\<lparr>osutil_get_dhcp_pid := Inr []\<rparr>] init) =
     [LogWarn ''Dhcp client is not running.''] \<and>
   \<not> dhcp_warning_enabled (fetches [world0\<lparr>osutil_get_dhcp_pid := Inr []\<rparr>] init) \<and>
   dhcp_warning_enabled (fetches [world0\<lparr>osutil_get_dhcp_pid := Inr []\<rparr>, world0] init) \<and>
   trace (fetches [world0\<lparr>osutil_get_dhcp_pid := Inr []\<rparr>, world0,
                   world0\<lparr>osutil_get_dhcp_pid := Inr []\<rparr>] init) =
     [LogWarn ''Dhcp client is not running.'', LogWarn ''Dhcp client is not running.'']"
  using dhcp_warning_only_on_transition
      [of "world0\<lparr>osutil_get_dhcp_pid := Inr []\<rparr>" init "[]"]
    dhcp_warning_only_on_transition
      [of "world0\<lparr>osutil_get_dhcp_pid := Inr []\<rparr>" init
          "[world0\<lparr>osutil_get_dhcp_pid := Inr []\<rparr>]"]
    dhcp_warning_only_on_transition
      [of world0 init "[world0\<lparr>osutil_get_dhcp_pid := Inr []\<rparr>]"]
    dhcp_warning_only_on_transition
      [of "world0\<lparr>osutil_get_dhcp_pid := Inr []\<rparr>" init
          "[world0\<lparr>osutil_get_dhcp_pid := Inr []\<rparr>, world0]"]
  by (simp add: returns_pids_def init_def world0_def)

text \<open>
  C8. When \<^verbatim>\<open>get_dhcp_pid\<close> raises, \<^verbatim>\<open>get_dhcp_client_pid\<close> returns normally: its result is the
  empty sequence, the error is logged exactly when the warning flag was true, the flag
  becomes false, and nothing else changes. Its callers go on: \<^verbatim>\<open>run\<close> stores the empty
  sequence and still starts the background task, and the DHCP restart detector returns
  with the stored sequence as it was.
\<close>

theorem dhcp_pid_failure_is_caught:
  assumes "osutil_get_dhcp_pid w = Inl e"
  shows "get_dhcp_client_pid w s =
           ([], s\<lparr>trace := trace s @
                    (if dhcp_warning_enabled s
                     then [LogError (''Failed to get the PID of the DHCP client: '' @ e)]
                     else []),
                  dhcp_warning_enabled := False\<rparr>) \<and>
         dhcp_id_list (run w s) = [] \<and>
         server_thread (run w s) = Some \<lparr>thread_name = ''EnvHandler'', thread_daemon = True\<rparr> \<and>
         dhcp_id_list (handle_dhclient_restart w s) = dhcp_id_list s"
proof -
  have fetch: "get_dhcp_client_pid w s' =
           ([], s'\<lparr>trace := trace s' @
                    (if dhcp_warning_enabled s'
                     then [LogError (''Failed to get the PID of the DHCP client: '' @ e)]
                     else []),
                  dhcp_warning_enabled := False\<rparr>)" for s'
    using assms by (simp add: get_dhcp_client_pid_def emit_def)
  have detector: "dhcp_id_list (handle_dhclient_restart w s) = dhcp_id_list s"
    by (simp add: handle_dhclient_restart_def fetch)
  show ?thesis
    using assms fetch [of s] detector by (simp add: run_dhcp_id_list run_server_thread)
qed

theorem dhcp_pid_failure_is_caught_witness:
  "osutil_get_dhcp_pid (world0\<lparr>osutil_get_dhcp_pid := Inl ''pidof failed''\<rparr>) =
     Inl ''pidof failed'' \<and>
   get_dhcp_client_pid (world0\<lparr>osutil_get_dhcp_pid := Inl ''pidof failed''\<rparr>) init =
     ([], init\<lparr>trace := [LogError ''Failed to get the PID of the DHCP client: pidof failed''],
            dhcp_warning_enabled := False\<rparr>) \<and>
   get_dhcp_client_pid (world0\<lparr>osutil_get_dhcp_pid := Inl ''pidof failed''\<rparr>)
     (init\<lparr>dhcp_warning_enabled := False\<rparr>) = ([], init\<lparr>dhcp_warning_enabled := False\<rparr>) \<and>
   dhcp_id_list (handle_dhclient_restart (world0\<lparr>osutil_get_dhcp_pid := Inl ''pidof failed''\<rparr>)
     running_handler) = [101, 205]"
proof -
  have a: "osutil_get_dhcp_pid (world0\<lparr>osutil_get_dhcp_pid := Inl ''pidof failed''\<rparr>) =
     Inl ''pidof failed''"
    by simp
  show ?thesis
    using a dhcp_pid_failure_is_caught [OF a, of init]
      dhcp_pid_failure_is_caught [OF a, of "init\<lparr>dhcp_warning_enabled := False\<rparr>"]
      dhcp_pid_failure_is_caught [OF a, of running_handler]
    by (simp add: init_def running_handler_eq)
qed

text \<open>
  C9. Once \<^verbatim>\<open>has_reset_firewall_rules\<close> is true it stays true through every history of
  \<^verbatim>\<open>run\<close>, \<^verbatim>\<open>stop\<close>, \<^verbatim>\<open>start\<close> and iterations of the loop on the same handler. In particular \<^verbatim>\<open>stop\<close>
  followed by \<^verbatim>\<open>run\<close> leaves it true, and that \<^verbatim>\<open>run\<close> makes no hard reset: its only call of
  \<^verbatim>\<open>remove_firewall\<close>, if any, is the cleanup of the legacy endpoint during a migration.
\<close>

theorem has_reset_firewall_rules_never_cleared:
  assumes "has_reset_firewall_rules s"
  shows "has_reset_firewall_rules (exec xs s) \<and>
         has_reset_firewall_rules (stop s) \<and>
         has_reset_firewall_rules (run w (stop s)) \<and>
         remove_firewall_calls (run w (stop s)) =
           remove_firewall_calls s @
             (if conf_enable_firewall w \<and> is_migrating_protocol w
              then [RemoveFirewall (METADATA_SERVER_ENDPOINT w) (os_getuid w)] else [])"
  using assms by (simp add: exec_flag run_flag run_calls)

theorem has_reset_firewall_rules_never_cleared_witness:
  "has_reset_firewall_rules running_handler \<and>
   has_reset_firewall_rules
     (exec [Tick world0, Stop, Tick world0, Run world0, Tick world0] running_handler) \<and>
   remove_firewall_calls (run world0 (stop running_handler)) =
     [RemoveFirewall ''168.63.129.16'' 0]"
proof -
  have a: "has_reset_firewall_rules running_handler"
    by (simp add: running_handler_eq)
  show ?thesis
    using a has_reset_firewall_rules_never_cleared [OF a,
        of "[Tick world0, Stop, Tick world0, Run world0, Tick world0]" world0]
    by (simp add: world0_fields running_handler_eq remove_firewall_calls_def)
qed

text \<open>
  C10. As long as neither \<^verbatim>\<open>run\<close> nor \<^verbatim>\<open>start\<close> has been called on a handler, \<^verbatim>\<open>server_thread\<close>
  is still \<^verbatim>\<open>None\<close>, and \<^verbatim>\<open>is_alive\<close> raises the attribute error instead of returning
  false, whatever the thread library would answer.
\<close>

theorem is_alive_before_run_raises:
  assumes "list_all (\<lambda>x. \<not> creates_task x) xs"
  shows "server_thread (exec xs init) = None \<and>
         is_alive alive (exec xs init) = Inl (AttributeError ''is_alive'') \<and>
         is_alive alive (exec xs init) \<noteq> Inr False"
  using assms by (simp add: is_alive_def exec_server_thread init_fields)

theorem is_alive_before_run_raises_witness:
  "list_all (\<lambda>x. \<not> creates_task x) [Stop, Tick world0] \<and>
   is_alive (\<lambda>t. False) init = Inl (AttributeError ''is_alive'') \<and>
   is_alive (\<lambda>t. False) (exec [Stop, Tick world0] init) = Inl (AttributeError ''is_alive'')"
proof -
  have a: "list_all (\<lambda>x. \<not> creates_task x) [Stop, Tick world0]"
    by simp
  have b: "list_all (\<lambda>x. \<not> creates_task x) []"
    by simp
  show ?thesis
    using a is_alive_before_run_raises [OF a, of "\<lambda>t. False"]
      is_alive_before_run_raises [OF b, of "\<lambda>t. False"]
    by simp
qed


section \<open>Further properties\<close>

text \<open>
  No-op on full liveness. When the stored pid sequence is non-empty and every pid in it is
  alive, the tick of the DHCP restart detector changes nothing and calls nothing.
\<close>

theorem all_alive_is_noop:
  assumes "dhcp_id_list s \<noteq> []"
    and "list_all (osutil_check_pid_alive w) (dhcp_id_list s)"
  shows "handle_dhclient_restart w s = s"
  using assms by (simp add: handle_dhclient_restart_def)

theorem all_alive_is_noop_witness:
  "dhcp_id_list running_handler \<noteq> [] \<and>
   list_all (osutil_check_pid_alive (world0\<lparr>osutil_check_pid_alive := (\<lambda>p. True)\<rparr>))
     (dhcp_id_list running_handler) \<and>
   handle_dhclient_restart (world0\<lparr>osutil_check_pid_alive := (\<lambda>p. True)\<rparr>) running_handler =
     running_handler"
proof -
  have a: "dhcp_id_list running_handler \<noteq> []"
    by (simp add: running_handler_eq)
  have b: "list_all (osutil_check_pid_alive (world0\<lparr>osutil_check_pid_alive := (\<lambda>p. True)\<rparr>))
     (dhcp_id_list running_handler)"
    by (simp add: running_handler_eq)
  show ?thesis
    using a b all_alive_is_noop [OF a b] by simp
qed

text \<open>
  Bootstrap path. When the stored pid sequence is empty, the tick of the DHCP restart
  detector fetches and stores the result, whatever it is, and does not call
  \<^verbatim>\<open>conf_routes\<close>.
\<close>

theorem bootstrap_path_stores_without_restart:
  assumes "dhcp_id_list s = []"
  shows "dhcp_id_list (handle_dhclient_restart w s) = fst (get_dhcp_client_pid w s) \<and>
         count_list (trace (handle_dhclient_restart w s)) ConfRoutes =
           count_list (trace s) ConfRoutes"
  using assms
  by (simp add: handle_dhclient_restart_def split_beta get_dhcp_client_pid_count)

theorem bootstrap_path_stores_without_restart_witness:
  "dhcp_id_list init = [] \<and>
   dhcp_id_list (handle_dhclient_restart world0 init) = [205, 309] \<and>
   count_list (trace (handle_dhclient_restart world0 init)) ConfRoutes = 0"
proof -
  have a: "dhcp_id_list init = []"
    by (simp add: init_def)
  show ?thesis
    using a bootstrap_path_stores_without_restart [OF a, of world0]
    by (simp add: get_dhcp_client_pid_fst world0_def init_def)
qed

text \<open>
  The archiver fires on every iteration. While \<^verbatim>\<open>last_archive\<close> is unset, as it is in every
  state a new handler reaches, one iteration of the loop calls \<^verbatim>\<open>purge\<close> once and \<^verbatim>\<open>archive\<close>
  once, and \<^verbatim>\<open>last_archive\<close> is still unset afterwards.
\<close>

theorem archiver_fires_every_iteration:
  assumes "last_archive s = None"
  shows "count_list (trace (monitor_body w s)) Purge = count_list (trace s) Purge + 1 \<and>
         count_list (trace (monitor_body w s)) Archive = count_list (trace s) Archive + 1 \<and>
         last_archive (monitor_body w s) = None"
  using assms
  by (simp add: monitor_body_def archive_history_def Let_def set_firewall_rules_count
      handle_hostname_update_count handle_dhclient_restart_count split: option.splits)

theorem archiver_fires_every_iteration_witness:
  "last_archive running_handler = None \<and>
   count_list (trace (monitor_body world0 running_handler)) Archive = 1 \<and>
   count_list (trace (monitor_body world0 (monitor_body world0 running_handler))) Archive = 2"
proof -
  have a: "last_archive running_handler = None"
    by (simp add: running_handler_eq)
  have b: "last_archive (monitor_body world0 running_handler) = None"
    using a by simp
  show ?thesis
    using a archiver_fires_every_iteration [OF a, of world0]
      archiver_fires_every_iteration [OF b, of world0]
    by (simp add: running_handler_eq)
qed

text \<open>
  Restart detection within a whole iteration of the loop. With the stored pids 101, 205,
  pid 101 dead and a refetch that sorts to 205, 309, one iteration of the loop calls
  \<^verbatim>\<open>conf_routes\<close> exactly once and leaves 205, 309 stored: no other reconciler of the
  iteration reconfigures routes or touches the stored pids.
\<close>

theorem restart_detection_in_iteration:
  assumes "dhcp_id_list s = [101, 205]" and "\<not> osutil_check_pid_alive w 101"
    and "osutil_get_dhcp_pid w = Inr ps" and "sort ps = [205, 309]"
  shows "dhcp_id_list (monitor_body w s) = [205, 309] \<and>
         count_list (trace (monitor_body w s)) ConfRoutes =
           count_list (trace s) ConfRoutes + 1"
proof -
  define s3 where "s3 =
    (let s1 = set_firewall_rules w (get_endpoint w) s;
         s2 = (case conf_get_root_device_scsi_timeout w of
                 None \<Rightarrow> s1
               | Some timeout \<Rightarrow> emit (SetScsiDisksTimeout timeout) s1)
     in if conf_get_monitor_hostname w then handle_hostname_update w s2 else s2)"
  have ids: "dhcp_id_list s3 = [101, 205]"
    using assms(1) by (simp add: s3_def Let_def split: option.splits)
  have cnt: "count_list (trace s3) ConfRoutes = count_list (trace s) ConfRoutes"
    by (simp add: s3_def Let_def set_firewall_rules_count handle_hostname_update_count
        split: option.splits)
  have dead: "\<not> list_all (osutil_check_pid_alive w) (dhcp_id_list s3)"
    using assms(2) ids by simp
  have ne: "ps \<noteq> []"
    using assms(4) by auto
  have step: "handle_dhclient_restart w s3 =
     (snd (get_dhcp_client_pid w s3))\<lparr>dhcp_id_list := [205, 309],
        trace := trace (snd (get_dhcp_client_pid w s3)) @
          [LogInfo ''EnvMonitor: Detected dhcp client restart. Restoring routing table.'',
           ConfRoutes]\<rparr>"
    using ids dead assms(3,4)
    by (simp add: handle_dhclient_restart_dead get_dhcp_client_pid_fst Let_def)
  have body: "monitor_body w s = emit (Sleep 5) (archive_history w (handle_dhclient_restart w s3))"
    by (simp add: monitor_body_def s3_def Let_def)
  show ?thesis
    using cnt by (simp add: body step archive_history_count get_dhcp_client_pid_count)
qed

theorem restart_detection_in_iteration_witness:
  "dhcp_id_list running_handler = [101, 205] \<and>
   \<not> osutil_check_pid_alive world0 101 \<and>
   osutil_get_dhcp_pid world0 = Inr [309, 205] \<and>
   sort [309, 205 :: int] = [205, 309] \<and>
   dhcp_id_list (monitor_body world0 running_handler) = [205, 309] \<and>
   count_list (trace (monitor_body world0 running_handler)) ConfRoutes = 2"
proof -
  have a: "dhcp_id_list running_handler = [101, 205]"
    by (simp add: running_handler_eq)
  have b: "\<not> osutil_check_pid_alive world0 101"
    by (simp add: world0_def)
  have c: "osutil_get_dhcp_pid world0 = Inr [309, 205]"
    by (simp add: world0_def)
  have d: "sort [309, 205 :: int] = [205, 309]"
    by simp
  show ?thesis
    using a b c d restart_detection_in_iteration [OF a b c d]
    by (simp add: running_handler_eq)
qed

end
